theory Spec2Isabelle
  imports Complex_Main "HOL-Library.AList"
begin

section \<open>Go types and values as reflection shows them\<close>

text \<open>
  The decoder of \<^verbatim>\<open>caddyunmarshal.go\<close> works on \<^verbatim>\<open>reflect.Value\<close> and
  \<^verbatim>\<open>reflect.Type\<close>. A type is modelled by the part of it the decoder reads: its kind, its
  bit size, the key and element type of a map, the fields of a struct (name, package path,
  the value of the \<^verbatim>\<open>caddyfile\<close> key of the tag, type), and its name when it is a defined
  type. \<open>TInt bits\<close> stands for \<^verbatim>\<open>int8 .. int64\<close> and for \<^verbatim>\<open>int\<close> (64 bits on the
  platforms Caddy runs on); \<open>TOther\<close> stands for every kind the decoder has no case for
  (slices, pointers, interfaces, ...).
\<close>

datatype kind = KBool | KInt | KUint | KFloat | KString | KMap | KStruct | KOther

datatype gotype =
    TBool
  | TString
  | TInt nat
  | TUint nat
  | TFloat nat
  | TMap gotype gotype
  | TStruct "structField list"
  | TNamed string gotype
  | TOther string
and structField =
    StructField (Name: string) (PkgPath: string) (Tag: string) (Type: gotype)

text \<open>
  A value is the content of a piece of storage. A map is a reference that may be nil
  (\<open>VMap None\<close>); its entries are an association list, updated by key. \<open>VNil\<close> is
  the zero value of the kinds the decoder does not handle. Every field has storage of its
  own: a map shared by two fields of the caller's record is outside the model.
\<close>

datatype val =
    VBool bool
  | VString string
  | VInt int
  | VUint nat
  | VFloat real
  | VMap "(val \<times> val) list option"
  | VStruct "val list"
  | VNil

text \<open>\<^verbatim>\<open>type reflectValue struct { v reflect.Value; t reflect.Type }\<close>: the value is the
  current content of the storage \<^verbatim>\<open>v\<close> refers to. Every function that writes through
  \<^verbatim>\<open>v\<close> returns the new content, and its caller stores it where \<^verbatim>\<open>v\<close> points.\<close>

datatype reflectValue = ReflectValue (rv: val) (rt: gotype)

fun Kind :: "gotype \<Rightarrow> kind" where
  "Kind TBool = KBool"
| "Kind TString = KString"
| "Kind (TInt b) = KInt"
| "Kind (TUint b) = KUint"
| "Kind (TFloat b) = KFloat"
| "Kind (TMap k e) = KMap"
| "Kind (TStruct fs) = KStruct"
| "Kind (TNamed n u) = Kind u"
| "Kind (TOther n) = KOther"

fun underlying :: "gotype \<Rightarrow> gotype" where
  "underlying (TNamed n u) = underlying u"
| "underlying ty = ty"

fun Bits :: "gotype \<Rightarrow> nat" where
  "Bits (TInt b) = b"
| "Bits (TUint b) = b"
| "Bits (TFloat b) = b"
| "Bits (TNamed n u) = Bits u"
| "Bits ty = 0"

fun Key :: "gotype \<Rightarrow> gotype" where
  "Key (TMap k e) = k"
| "Key (TNamed n u) = Key u"
| "Key ty = ty"

fun Elem :: "gotype \<Rightarrow> gotype" where
  "Elem (TMap k e) = e"
| "Elem (TNamed n u) = Elem u"
| "Elem ty = ty"

fun Fields :: "gotype \<Rightarrow> structField list" where
  "Fields (TStruct fs) = fs"
| "Fields (TNamed n u) = Fields u"
| "Fields ty = []"

text \<open>Go's assignability between two non-interface types: identical types, or identical
  underlying types when at most one of the two is a named type. Predeclared types are
  named types.\<close>

fun isNamed :: "gotype \<Rightarrow> bool" where
  "isNamed (TMap k e) = False"
| "isNamed (TStruct fs) = False"
| "isNamed (TOther n) = False"
| "isNamed ty = True"

definition AssignableTo :: "gotype \<Rightarrow> gotype \<Rightarrow> bool" where
  "AssignableTo ty u =
     (ty = u \<or> (underlying ty = underlying u \<and> \<not> (isNamed ty \<and> isNamed u)))"

text \<open>\<^verbatim>\<open>reflect.New(t).Elem()\<close>: fresh storage holding the zero value of the type.\<close>

fun zero :: "gotype \<Rightarrow> val"
and zeroField :: "structField \<Rightarrow> val" where
  "zero TBool = VBool False"
| "zero TString = VString []"
| "zero (TInt b) = VInt 0"
| "zero (TUint b) = VUint 0"
| "zero (TFloat b) = VFloat 0"
| "zero (TMap k e) = VMap None"
| "zero (TStruct fs) = VStruct (map zeroField fs)"
| "zero (TNamed n u) = zero u"
| "zero (TOther n) = VNil"
| "zeroField (StructField n p tg ty) = zero ty"

text \<open>\<^verbatim>\<open>r.v.Field(i)\<close> and the store through it. A struct value has one entry per field of
  its type; outside that range there is no storage.\<close>

fun FieldOf :: "val \<Rightarrow> nat \<Rightarrow> val" where
  "FieldOf (VStruct vs) i = (if i < length vs then vs ! i else VNil)"
| "FieldOf x i = VNil"

fun SetField :: "val \<Rightarrow> nat \<Rightarrow> val \<Rightarrow> val" where
  "SetField (VStruct vs) i x = VStruct (vs[i := x])"
| "SetField y i x = y"

definition IsExported :: "structField \<Rightarrow> bool" where
  "IsExported f = (PkgPath f = [])"

section \<open>The standard library functions the extraction uses\<close>

definition isDigit :: "char \<Rightarrow> bool" where
  "isDigit c = (48 \<le> (of_char c :: nat) \<and> (of_char c :: nat) \<le> 57)"

definition digitsValue :: "string \<Rightarrow> nat" where
  "digitsValue s = foldl (\<lambda>a c. 10 * a + (of_char c - 48)) 0 s"

text \<open>\<^verbatim>\<open>strconv.ParseUint(s, 10, bits)\<close> and \<^verbatim>\<open>strconv.ParseInt(s, 10, bits)\<close>: \<open>None\<close>
  is any error (syntax or range; the callers do not tell them apart).\<close>

definition ParseUint :: "string \<Rightarrow> nat \<Rightarrow> nat option" where
  "ParseUint s bits =
     (if s \<noteq> [] \<and> list_all isDigit s \<and> digitsValue s < 2 ^ bits
      then Some (digitsValue s) else None)"

definition ParseInt :: "string \<Rightarrow> nat \<Rightarrow> int option" where
  "ParseInt s bits =
     (let neg = (s \<noteq> [] \<and> hd s = CHR ''-'');
          s1 = (if s \<noteq> [] \<and> (hd s = CHR ''+'' \<or> hd s = CHR ''-'') then tl s else s);
          un = digitsValue s1
      in if s1 = [] \<or> \<not> list_all isDigit s1 then None
         else if \<not> neg \<and> un \<ge> 2 ^ (bits - 1) then None
         else if neg \<and> un > 2 ^ (bits - 1) then None
         else Some (if neg then - int un else int un))"

text \<open>\<^verbatim>\<open>strconv.Atoi\<close> is \<^verbatim>\<open>ParseInt(s, 10, 0)\<close> narrowed to \<^verbatim>\<open>int\<close>, 64 bits wide.\<close>

definition Atoi :: "string \<Rightarrow> int option" where
  "Atoi s = ParseInt s 64"

text \<open>\<^verbatim>\<open>strconv.ParseBool\<close>.\<close>

definition ParseBool :: "string \<Rightarrow> bool option" where
  "ParseBool s =
     (if s \<in> set [''1'', ''t'', ''T'', ''TRUE'', ''true'', ''True''] then Some True
      else if s \<in> set [''0'', ''f'', ''F'', ''FALSE'', ''false'', ''False''] then Some False
      else None)"

text \<open>\<^verbatim>\<open>strings.Split(tag, ",")\<close> always returns at least one part; the source reads
  \<^verbatim>\<open>parts[0]\<close> and \<^verbatim>\<open>parts[1:]\<close>, which are the two components here.\<close>

fun Split :: "string \<Rightarrow> string \<times> string list" where
  "Split [] = ([], [])"
| "Split (c # cs) =
     (case Split cs of (p, ps) \<Rightarrow> if c = CHR '','' then ([], p # ps) else (c # p, ps))"

definition HasPrefix :: "string \<Rightarrow> string \<Rightarrow> bool" where
  "HasPrefix s p = (take (length p) s = p)"

definition TrimPrefix :: "string \<Rightarrow> string \<Rightarrow> string" where
  "TrimPrefix s p = (if HasPrefix s p then drop (length p) s else s)"

text \<open>\<^verbatim>\<open>blockIxRe = regexp.MustCompile(`^\{(\d+)\}$`)\<close>: the submatch when the name
  matches.\<close>

definition blockIxRe :: "string \<Rightarrow> string option" where
  "blockIxRe name =
     (if 3 \<le> length name \<and> hd name = CHR ''{'' \<and> last name = CHR ''}''
         \<and> list_all isDigit (butlast (tl name))
      then Some (butlast (tl name)) else None)"

fun hasOpt :: "string list \<Rightarrow> string \<Rightarrow> bool" where
  "hasOpt [] opt = False"
| "hasOpt (part # parts) opt = (if part = opt then True else hasOpt parts opt)"

section \<open>Errors and outcomes\<close>

text \<open>
  One constructor per \<^verbatim>\<open>fmt.Errorf\<close> of the source; a \<^verbatim>\<open>%w\<close> argument is the wrapped
  error. \<open>Positioned file line e\<close> is what the dispenser's \<^verbatim>\<open>WrapErr\<close> makes of \<open>e\<close>.
  \<open>External\<close> is an error returned by code outside the package (a custom
  \<^verbatim>\<open>UnmarshalCaddyfile\<close>, \<^verbatim>\<open>MatcherToken\<close>).
\<close>

datatype error =
    ExpectedStructValue
  | CannotExtractFields error
  | MatcherWithoutHTTP
  | ExpectedModuleMap
  | CannotGetModuleMap error
  | UnexpectedArgumentAt nat string
  | UnexpectedBlockAt nat string
  | ErrorAt nat error
  | MissingRequiredField nat
  | ExpectedStructOrMap
  | ErrorUnmarshalingMapKey string error
  | UnexpectedArgumentAtName string string
  | ErrorAtName string error
  | CannotParseInt
  | CannotParseUint
  | CannotParseFloat
  | CannotParseBoolean string
  | CannotParseAddress
  | CannotParseNetworkAddress
  | CannotParseDuration
  | UnsupportedType gotype
  | InvalidBlockIndex string
  | InvalidArgumentIndex string
  | IllegalNonOptional nat
  | DuplicateFieldIndex int
  | Positioned string nat error
  | External string

text \<open>What a call leaves behind: it returned nil, it returned an error, or it panicked
  (nothing in the package recovers).\<close>

datatype outcome = Ok | Err error | Panic string

section \<open>Field roles\<close>

datatype fieldKind =
    blockFieldKind string
  | blockKind int bool
  | argumentKind int bool
  | matcherKind

text \<open>\<^verbatim>\<open>fieldInfo.value\<close> is \<^verbatim>\<open>r.v.Field(i)\<close>, a reference to field \<open>i\<close> of the record
  being decoded: the model keeps \<open>i\<close>.\<close>

datatype fieldInfo = FieldInfo (field: structField) (fvalue: nat) (kind: fieldKind)

fun optional :: "fieldInfo \<Rightarrow> bool" where
  "optional (FieldInfo f i (blockKind ix opt)) = opt"
| "optional (FieldInfo f i (argumentKind ix opt)) = opt"
| "optional (FieldInfo f i k) = True"

fun index :: "fieldInfo \<Rightarrow> int" where
  "index (FieldInfo f i (blockKind ix opt)) = ix"
| "index (FieldInfo f i (argumentKind ix opt)) = ix"
| "index (FieldInfo f i k) = - 1"

record structInfo =
  blockFields :: "fieldInfo list"
  otherFields :: "fieldInfo list"
  matcher :: "fieldInfo option"

fun blockFieldNamed :: "structInfo \<Rightarrow> string \<Rightarrow> fieldInfo option" where
  "blockFieldNamed s name = find (\<lambda>fi. Name (field fi) = name) (blockFields s)"

fun otherFieldAt :: "structInfo \<Rightarrow> nat \<Rightarrow> fieldInfo option" where
  "otherFieldAt s ix = (if ix \<ge> length (otherFields s) then None else Some (otherFields s ! ix))"

section \<open>Slices\<close>

text \<open>
  While \<^verbatim>\<open>extractFields\<close> scans the fields, \<^verbatim>\<open>info.blockFields\<close> and
  \<^verbatim>\<open>info.otherFields\<close> are Go slices: a backing array, a length and a capacity.
  \<^verbatim>\<open>append(s, x)\<close> writes \<open>x\<close> into the backing array of \<open>s\<close> at position \<open>len s\<close> when
  the capacity allows, and every slice on that array sees the write; otherwise it copies
  the elements to a fresh array. The store holds, for each array, the elements written so
  far; array \<open>0\<close> is the empty array of the nil slice. By how much a full slice grows is
  left to the Go runtime: \<open>grow\<close> is that policy, a parameter.
\<close>

datatype slice = Slice (array: nat) (len: nat) (cap: nat)

type_synonym store = "fieldInfo list list"

definition nilSlice :: slice where
  "nilSlice = Slice 0 0 0"

definition emptyStore :: store where
  "emptyStore = [[]]"

definition elems :: "store \<Rightarrow> slice \<Rightarrow> fieldInfo list" where
  "elems h s = take (len s) (h ! array s)"

definition append_slice :: "(nat \<Rightarrow> nat) \<Rightarrow> store \<Rightarrow> slice \<Rightarrow> fieldInfo \<Rightarrow> store \<times> slice" where
  "append_slice grow h s x =
     (if len s < cap s
      then (h[array s := take (len s) (h ! array s) @ x # drop (Suc (len s)) (h ! array s)],
            Slice (array s) (Suc (len s)) (cap s))
      else (h @ [elems h s @ [x]],
            Slice (length h) (Suc (len s)) (max (Suc (len s)) (grow (cap s)))))"

text \<open>\<^verbatim>\<open>sort.Slice(s, func(i, j) { return s[i].index() < s[j].index() })\<close> permutes the
  elements of the slice in its backing array. The library sort is modelled by the
  insertion sort on the key. In \<^verbatim>\<open>extractFields\<close> the slice is
  \<^verbatim>\<open>info.blockFields\<close>, whose elements all have the index \<open>-1\<close>: the comparison is
  false for every pair, and Go's sort leaves such a slice as it is, as the insertion sort
  does.\<close>

definition sort_Slice :: "store \<Rightarrow> slice \<Rightarrow> store" where
  "sort_Slice h s = h[array s := sort_key index (elems h s) @ drop (len s) (h ! array s)]"

section \<open>Schema extraction\<close>

text \<open>The local variable \<^verbatim>\<open>info\<close> of \<^verbatim>\<open>extractFields\<close> during the scan.\<close>

datatype scan = Scan (sBlockFields: slice) (sOtherFields: slice) (sMatcher: "fieldInfo option")

text \<open>The loop over the fields of the type, \<^verbatim>\<open>for i := 0; i < nfields; i++\<close>.\<close>

fun scanFields ::
  "(nat \<Rightarrow> nat) \<Rightarrow> structField list \<Rightarrow> nat \<Rightarrow> store \<Rightarrow> scan \<Rightarrow> error + store \<times> scan" where
  "scanFields grow [] i h info = Inr (h, info)"
| "scanFields grow (f # fs) i h info =
     (if \<not> IsExported f then scanFields grow fs (Suc i) h info
      else if Tag f = [] then
        (case append_slice grow h (sBlockFields info) (FieldInfo f i (blockFieldKind (Name f))) of
           (h', s) \<Rightarrow> scanFields grow fs (Suc i) h' (Scan s (sOtherFields info) (sMatcher info)))
      else
        (case Split (Tag f) of (name, opts) \<Rightarrow>
           if name = ''-'' then scanFields grow fs (Suc i) h info
           else if name = ''$matcher'' then
             scanFields grow fs (Suc i) h
               (Scan (sBlockFields info) (sOtherFields info) (Some (FieldInfo f i matcherKind)))
           else if blockIxRe name \<noteq> None then
             (case Atoi (the (blockIxRe name)) of
                None \<Rightarrow> Inl (InvalidBlockIndex name)
              | Some ix \<Rightarrow>
                 (case append_slice grow h (sBlockFields info)
                         (FieldInfo f i (blockKind ix (hasOpt opts ''optional''))) of
                    (h', s) \<Rightarrow> scanFields grow fs (Suc i) h' (Scan (sBlockFields info) s (sMatcher info))))
           else if HasPrefix name ''$'' then
             (case Atoi (TrimPrefix name ''$'') of
                None \<Rightarrow> Inl (InvalidArgumentIndex name)
              | Some ix \<Rightarrow>
                 (case append_slice grow h (sOtherFields info)
                         (FieldInfo f i (argumentKind ix (hasOpt opts ''optional''))) of
                    (h', s) \<Rightarrow> scanFields grow fs (Suc i) h' (Scan (sBlockFields info) s (sMatcher info))))
           else
             (case append_slice grow h (sBlockFields info) (FieldInfo f i (blockFieldKind name)) of
                (h', s) \<Rightarrow> scanFields grow fs (Suc i) h' (Scan s (sOtherFields info) (sMatcher info)))))"

text \<open>\<^verbatim>\<open>// validate that optional fields are at the end\<close>\<close>

fun checkOptional :: "fieldInfo list \<Rightarrow> nat \<Rightarrow> bool \<Rightarrow> error option" where
  "checkOptional [] i foundOptional = None"
| "checkOptional (fi # fis) i foundOptional =
     (if foundOptional \<and> \<not> optional fi then Some (IllegalNonOptional i)
      else checkOptional fis (Suc i) (if \<not> foundOptional then optional fi else foundOptional))"

text \<open>\<^verbatim>\<open>// validate that all field indices are unique\<close>\<close>

fun checkUnique :: "fieldInfo list \<Rightarrow> int list \<Rightarrow> error option" where
  "checkUnique [] usedIndices = None"
| "checkUnique (fi # fis) usedIndices =
     (if index fi \<in> set usedIndices then Some (DuplicateFieldIndex (index fi))
      else checkUnique fis (index fi # usedIndices))"

text \<open>\<^verbatim>\<open>extractFields\<close>. The caller has checked nothing: \<^verbatim>\<open>r.v.NumField()\<close> panics on a
  value that is not a struct, which is the \<open>None\<close> here.\<close>

definition extractFields :: "(nat \<Rightarrow> nat) \<Rightarrow> reflectValue \<Rightarrow> (error + structInfo) option" where
  "extractFields grow r =
     (if Kind (rt r) \<noteq> KStruct then None
      else Some
        (case scanFields grow (Fields (rt r)) 0 emptyStore (Scan nilSlice nilSlice None) of
           Inl e \<Rightarrow> Inl e
         | Inr (h, info) \<Rightarrow>
            (let h' = sort_Slice h (sBlockFields info);
                 others = elems h' (sOtherFields info)
             in case checkOptional others 0 False of
                  Some e \<Rightarrow> Inl e
                | None \<Rightarrow>
                   (case checkUnique others [] of
                      Some e \<Rightarrow> Inl e
                    | None \<Rightarrow>
                       Inr \<lparr>blockFields = elems h' (sBlockFields info),
                            otherFields = others,
                            matcher = sMatcher info\<rparr>))))"

section \<open>The collaborators of the decoder\<close>

text \<open>
  The token cursor (\<^verbatim>\<open>caddyfile.Dispenser\<close>), the matcher support of
  \<^verbatim>\<open>httpcaddyfile.Helper\<close>, the parsers of the domain types, the custom decoders
  (\<^verbatim>\<open>caddyfile.Unmarshaler\<close>) and the growth policy of \<^verbatim>\<open>append\<close> are not code of
  this package. The decoder is modelled over any implementation of them: \<open>'s\<close> is the state
  of the cursor, and each method takes the state and returns the new one with its result.
  \<open>Unmarshaler ty\<close> is the \<^verbatim>\<open>UnmarshalCaddyfile\<close> method of the type, when it has one; it
  is given the cursor and the storage.
\<close>

record 's caddy =
  NextArg :: "'s \<Rightarrow> bool \<times> 's"
  NextBlock :: "int \<Rightarrow> 's \<Rightarrow> bool \<times> 's"
  Nesting :: "'s \<Rightarrow> int"
  Val :: "'s \<Rightarrow> string"
  CountRemainingArgs :: "'s \<Rightarrow> nat \<times> 's"
  NextSegment :: "'s \<Rightarrow> 's"
  File :: "'s \<Rightarrow> string"
  Line :: "'s \<Rightarrow> nat"
  MatcherToken :: "'s \<Rightarrow> (error + val \<times> bool) \<times> 's"
  Unmarshaler :: "gotype \<Rightarrow> ('s \<Rightarrow> val \<Rightarrow> error option \<times> 's \<times> val) option"
  ParseFloat :: "string \<Rightarrow> nat \<Rightarrow> val option"
  ParseAddress :: "string \<Rightarrow> val option"
  ParseNetworkAddress :: "string \<Rightarrow> val option"
  ParseCaddyDuration :: "string \<Rightarrow> val option"
  ParseDuration :: "string \<Rightarrow> val option"
  growslice :: "nat \<Rightarrow> nat"

text \<open>\<^verbatim>\<open>d.WrapErr(err)\<close> puts the file and line of the current token before the error.\<close>

definition WrapErr :: "'s caddy \<Rightarrow> 's \<Rightarrow> error \<Rightarrow> error" where
  "WrapErr L d e = Positioned (File L d) (Line L d) e"

text \<open>The explicitly supported value types.\<close>

definition TypeCaddyModuleMap :: gotype where
  "TypeCaddyModuleMap =
     TNamed ''caddy.ModuleMap'' (TMap TString (TNamed ''json.RawMessage'' (TOther ''[]uint8'')))"

definition TypeCaddyAddress :: gotype where
  "TypeCaddyAddress =
     TNamed ''httpcaddyfile.Address''
       (TStruct [StructField ''Original'' [] [] TString, StructField ''Scheme'' [] [] TString,
                 StructField ''Host'' [] [] TString, StructField ''Port'' [] [] TString,
                 StructField ''Path'' [] [] TString])"

definition TypeCaddyNetworkAddress :: gotype where
  "TypeCaddyNetworkAddress =
     TNamed ''caddy.NetworkAddress''
       (TStruct [StructField ''Network'' [] [] TString, StructField ''Host'' [] [] TString,
                 StructField ''StartPort'' [] [] (TUint 64), StructField ''EndPort'' [] [] (TUint 64)])"

definition TypeCaddyDuration :: gotype where
  "TypeCaddyDuration = TNamed ''caddy.Duration'' (TInt 64)"

definition TypeDuration :: gotype where
  "TypeDuration = TNamed ''time.Duration'' (TInt 64)"

section \<open>Value coercion\<close>

definition unmarshalValue ::
  "'s caddy \<Rightarrow> 's \<Rightarrow> reflectValue \<Rightarrow> string \<Rightarrow> outcome \<times> 's \<times> val" where
  "unmarshalValue L d r raw =
     (case Unmarshaler L (rt r) of
        Some unmarshaler \<Rightarrow>
          (case unmarshaler d (rv r) of
             (None, d', x) \<Rightarrow> (Ok, d', x)
           | (Some e, d', x) \<Rightarrow> (Err e, d', x))
      | None \<Rightarrow>
          (case Kind (rt r) of
             KString \<Rightarrow> (Ok, d, VString raw)
           | KInt \<Rightarrow>
               (case ParseInt raw (Bits (rt r)) of
                  None \<Rightarrow> (Err (WrapErr L d CannotParseInt), d, rv r)
                | Some i \<Rightarrow> (Ok, d, VInt i))
           | KUint \<Rightarrow>
               (case ParseUint raw (Bits (rt r)) of
                  None \<Rightarrow> (Err (WrapErr L d CannotParseUint), d, rv r)
                | Some u \<Rightarrow> (Ok, d, VUint u))
           | KFloat \<Rightarrow>
               (case ParseFloat L raw (Bits (rt r)) of
                  None \<Rightarrow> (Err (WrapErr L d CannotParseFloat), d, rv r)
                | Some f \<Rightarrow> (Ok, d, f))
           | KBool \<Rightarrow>
               (case ParseBool raw of
                  None \<Rightarrow> (Err (WrapErr L d (CannotParseBoolean raw)), d, rv r)
                | Some b \<Rightarrow> (Ok, d, VBool b))
           | _ \<Rightarrow>
               (if AssignableTo (rt r) TypeCaddyAddress then
                  (case ParseAddress L raw of
                     None \<Rightarrow> (Err (WrapErr L d CannotParseAddress), d, rv r)
                   | Some addr \<Rightarrow> (Ok, d, addr))
                else if AssignableTo (rt r) TypeCaddyNetworkAddress then
                  (case ParseNetworkAddress L raw of
                     None \<Rightarrow> (Err (WrapErr L d CannotParseNetworkAddress), d, rv r)
                   | Some addr \<Rightarrow> (Ok, d, addr))
                else if AssignableTo (rt r) TypeCaddyDuration then
                  (case ParseCaddyDuration L raw of
                     None \<Rightarrow> (Err (WrapErr L d CannotParseDuration), d, rv r)
                   | Some dura \<Rightarrow> (Ok, d, dura))
                else if AssignableTo (rt r) TypeDuration then
                  (case ParseDuration L raw of
                     None \<Rightarrow> (Err (WrapErr L d CannotParseDuration), d, rv r)
                   | Some dura \<Rightarrow> (Ok, d, dura))
                else (Err (UnsupportedType (rt r)), d, rv r))))"

section \<open>The walk over arguments and blocks\<close>

text \<open>The storage a \<^verbatim>\<open>fieldInfo\<close> of the record \<open>r\<close> refers to, and \<open>r\<close> after a write
  through it.\<close>

definition fieldValue :: "reflectValue \<Rightarrow> fieldInfo \<Rightarrow> reflectValue" where
  "fieldValue r fi = ReflectValue (FieldOf (rv r) (fvalue fi)) (Type (field fi))"

definition written :: "reflectValue \<Rightarrow> fieldInfo \<Rightarrow> val \<Rightarrow> reflectValue" where
  "written r fi x = ReflectValue (SetField (rv r) (fvalue fi) x) (rt r)"

text \<open>\<^verbatim>\<open>r.v.SetMapIndex(key, val)\<close>; it panics on a nil map (\<open>None\<close>).\<close>

fun SetMapIndex :: "val \<Rightarrow> val \<Rightarrow> val \<Rightarrow> val option" where
  "SetMapIndex (VMap (Some m)) k x = Some (VMap (Some (AList.update k x m)))"
| "SetMapIndex y k x = None"

text \<open>The check after the loop of \<^verbatim>\<open>unmarshal\<close>: the position of the first field of
  \<^verbatim>\<open>info.otherFields[i:]\<close> that is not optional.\<close>

fun missingRequired :: "fieldInfo list \<Rightarrow> nat \<Rightarrow> nat option" where
  "missingRequired [] k = None"
| "missingRequired (fi # fis) k = (if \<not> optional fi then Some k else missingRequired fis (Suc k))"

definition noInfo :: structInfo where
  "noInfo = \<lparr>blockFields = [], otherFields = [], matcher = None\<rparr>"

text \<open>
  \<^verbatim>\<open>unmarshal\<close> and \<^verbatim>\<open>unmarshalBlock\<close> call each other, and their loops run as long as
  the cursor says there is more. The first argument bounds the number of nested calls and
  loop rounds; \<open>None\<close> means the bound was reached before the call returned. The result is
  the outcome, the cursor, and the content of the storage of \<open>r\<close> when the call ends.

  \<open>walk\<close> is the loop \<^verbatim>\<open>loop: for { ... i++ }\<close> of \<^verbatim>\<open>unmarshal\<close> with the check that
  follows it, \<open>blockLines\<close> the loop \<^verbatim>\<open>for ok := true; ok; ok = d.NextBlock(nesting)\<close> of
  \<^verbatim>\<open>unmarshalBlock\<close>, \<open>parse\<close> its closure \<^verbatim>\<open>parse\<close> up to the choice of \<^verbatim>\<open>value\<close>, and
  \<open>parseValue\<close> the rest of the closure. \<open>http\<close> says whether \<^verbatim>\<open>d.http\<close> is set.
\<close>

function (sequential) unmarshal ::
    "nat \<Rightarrow> 's caddy \<Rightarrow> bool \<Rightarrow> 's \<Rightarrow> reflectValue \<Rightarrow> (outcome \<times> 's \<times> val) option"
and walk ::
    "nat \<Rightarrow> 's caddy \<Rightarrow> bool \<Rightarrow> structInfo \<Rightarrow> bool \<Rightarrow> nat \<Rightarrow> 's \<Rightarrow> reflectValue
       \<Rightarrow> (outcome \<times> 's \<times> val) option"
and unmarshalBlock ::
    "nat \<Rightarrow> 's caddy \<Rightarrow> bool \<Rightarrow> 's \<Rightarrow> int \<Rightarrow> reflectValue \<Rightarrow> (outcome \<times> 's \<times> val) option"
and blockLines ::
    "nat \<Rightarrow> 's caddy \<Rightarrow> bool \<Rightarrow> int \<Rightarrow> bool \<Rightarrow> structInfo \<Rightarrow> 's \<Rightarrow> reflectValue
       \<Rightarrow> (outcome \<times> 's \<times> val) option"
and parse ::
    "nat \<Rightarrow> 's caddy \<Rightarrow> bool \<Rightarrow> bool \<Rightarrow> structInfo \<Rightarrow> 's \<Rightarrow> reflectValue
       \<Rightarrow> (outcome \<times> 's \<times> val) option"
and parseValue ::
    "nat \<Rightarrow> 's caddy \<Rightarrow> bool \<Rightarrow> string \<Rightarrow> 's \<Rightarrow> reflectValue \<Rightarrow> (outcome \<times> 's \<times> val) option"
where
  "unmarshal 0 L http d r = None"
| "unmarshal (Suc n) L http d r =
     (case extractFields (growslice L) r of
        None \<Rightarrow> Some (Panic ''reflect: call of reflect.Value.NumField on non-struct Value'', d, rv r)
      | Some (Inl e) \<Rightarrow> Some (Err (CannotExtractFields e), d, rv r)
      | Some (Inr info) \<Rightarrow>
          (if matcher info \<noteq> None then
             (if \<not> http then Some (Err MatcherWithoutHTTP, d, rv r)
              else if \<not> AssignableTo (rt r) TypeCaddyModuleMap then Some (Err ExpectedModuleMap, d, rv r)
              else
                (case MatcherToken L d of
                   (Inl e, d') \<Rightarrow> Some (Err (CannotGetModuleMap e), d', rv r)
                 | (Inr (moduleMap, ok), d') \<Rightarrow>
                     walk n L http info False 0 d'
                       (ReflectValue (if ok then moduleMap else rv r) (rt r))))
           else walk n L http info False 0 d r))"
| "walk 0 L http info hadBlock i d r = None"
| "walk (Suc n) L http info hadBlock i d r =
     (let nesting = Nesting L d in
      case NextArg L d of
        (True, d1) \<Rightarrow>
          (case otherFieldAt info i of
             None \<Rightarrow> Some (Err (WrapErr L d1 (UnexpectedArgumentAt i (Val L d1))), d1, rv r)
           | Some fi \<Rightarrow>
               (case unmarshalValue L d1 (fieldValue r fi) (Val L d1) of
                  (Ok, d2, x) \<Rightarrow> walk n L http info hadBlock (Suc i) d2 (written r fi x)
                | (Err e, d2, x) \<Rightarrow> Some (Err (ErrorAt i e), d2, rv (written r fi x))
                | (Panic p, d2, x) \<Rightarrow> Some (Panic p, d2, rv (written r fi x))))
      | (False, d1) \<Rightarrow>
          (case NextBlock L nesting d1 of
             (True, d2) \<Rightarrow>
               (case otherFieldAt info i of
                  Some fi \<Rightarrow>
                    (case unmarshalBlock n L http d2 nesting (fieldValue r fi) of
                       None \<Rightarrow> None
                     | Some (Ok, d3, x) \<Rightarrow> walk n L http info hadBlock (Suc i) d3 (written r fi x)
                     | Some (Err e, d3, x) \<Rightarrow> Some (Err (ErrorAt i e), d3, rv (written r fi x))
                     | Some (Panic p, d3, x) \<Rightarrow> Some (Panic p, d3, rv (written r fi x)))
                | None \<Rightarrow>
                    (if hadBlock
                     then Some (Err (WrapErr L d2 (UnexpectedBlockAt i (Val L d2))), d2, rv r)
                     else
                       (case unmarshalBlock n L http d2 nesting r of
                          None \<Rightarrow> None
                        | Some (Ok, d3, x) \<Rightarrow>
                            walk n L http info True (Suc i) d3 (ReflectValue x (rt r))
                        | Some (Err e, d3, x) \<Rightarrow> Some (Err (ErrorAt i e), d3, x)
                        | Some (Panic p, d3, x) \<Rightarrow> Some (Panic p, d3, x))))
           | (False, d2) \<Rightarrow>
               (case missingRequired (drop i (otherFields info)) i of
                  Some k \<Rightarrow> Some (Err (WrapErr L d2 (MissingRequiredField k)), d2, rv r)
                | None \<Rightarrow> Some (Ok, d2, rv r))))"
| "unmarshalBlock 0 L http d nesting r = None"
| "unmarshalBlock (Suc n) L http d nesting r =
     (case Kind (rt r) of
        KStruct \<Rightarrow>
          (case extractFields (growslice L) r of
             None \<Rightarrow> Some (Panic ''reflect: call of reflect.Value.NumField on non-struct Value'', d, rv r)
           | Some (Inl e) \<Rightarrow> Some (Err (CannotExtractFields e), d, rv r)
           | Some (Inr info) \<Rightarrow> blockLines n L http nesting False info d r)
      | KMap \<Rightarrow> blockLines n L http nesting True noInfo d r
      | _ \<Rightarrow> Some (Err ExpectedStructOrMap, d, rv r))"
| "blockLines 0 L http nesting isMap info d r = None"
| "blockLines (Suc n) L http nesting isMap info d r =
     (case parse n L http isMap info d r of
        None \<Rightarrow> None
      | Some (Ok, d1, x) \<Rightarrow>
          (case NextBlock L nesting d1 of
             (True, d2) \<Rightarrow> blockLines n L http nesting isMap info d2 (ReflectValue x (rt r))
           | (False, d2) \<Rightarrow> Some (Ok, d2, x))
      | Some (Err e, d1, x) \<Rightarrow> Some (Ok, d1, x)
      | Some (Panic p, d1, x) \<Rightarrow> Some (Panic p, d1, x))"
| "parse 0 L http isMap info d r = None"
| "parse (Suc n) L http isMap info d r =
     (let name = Val L d in
      if isMap then
        (case unmarshalValue L d (ReflectValue (zero (Key (rt r))) (Key (rt r))) name of
           (Err e, d1, key) \<Rightarrow> Some (Err (ErrorUnmarshalingMapKey name e), d1, rv r)
         | (Panic p, d1, key) \<Rightarrow> Some (Panic p, d1, rv r)
         | (Ok, d1, key) \<Rightarrow>
             (case parseValue n L http name d1 (ReflectValue (zero (Elem (rt r))) (Elem (rt r))) of
                None \<Rightarrow> None
              | Some (Panic p, d2, x) \<Rightarrow> Some (Panic p, d2, rv r)
              | Some (out, d2, x) \<Rightarrow>
                  (case SetMapIndex (rv r) key x of
                     None \<Rightarrow> Some (Panic ''assignment to entry in nil map'', d2, rv r)
                   | Some m \<Rightarrow> Some (out, d2, m))))
      else
        (case blockFieldNamed info name of
           None \<Rightarrow> Some (Ok, NextSegment L d, rv r)
         | Some fi \<Rightarrow>
             (case parseValue n L http name d (fieldValue r fi) of
                None \<Rightarrow> None
              | Some (out, d2, x) \<Rightarrow> Some (out, d2, rv (written r fi x)))))"
| "parseValue 0 L http name d val = None"
| "parseValue (Suc n) L http name d val =
     (if Kind (rt val) = KBool then
        (case CountRemainingArgs L d of
           (c, d1) \<Rightarrow>
             if c > 0
             then Some (Err (WrapErr L d1 (UnexpectedArgumentAtName name (Val L d1))), d1, rv val)
             else Some (Ok, d1, VBool True))
      else
        (case unmarshal n L http d val of
           None \<Rightarrow> None
         | Some (Ok, d1, x) \<Rightarrow> Some (Ok, d1, x)
         | Some (Err e, d1, x) \<Rightarrow> Some (Err (ErrorAtName name e), d1, x)
         | Some (Panic p, d1, x) \<Rightarrow> Some (Panic p, d1, x)))"
  by pat_completeness auto

termination
  by (relation "measure (case_sum (case_sum fst (case_sum fst fst)) (case_sum fst (case_sum fst fst)))")
     simp_all

section \<open>The entry points\<close>

text \<open>\<^verbatim>\<open>newReflectValue\<close> after \<^verbatim>\<open>reflect.Indirect\<close>: the storage the caller's pointer
  refers to, and its type.\<close>

definition newReflectValue :: "val \<Rightarrow> gotype \<Rightarrow> error + reflectValue" where
  "newReflectValue x ty =
     (if Kind ty \<noteq> KStruct then Inl ExpectedStructValue else Inr (ReflectValue x ty))"

definition Unmarshal ::
  "nat \<Rightarrow> 's caddy \<Rightarrow> 's \<Rightarrow> val \<Rightarrow> gotype \<Rightarrow> (outcome \<times> 's \<times> val) option" where
  "Unmarshal n L d x ty =
     (case newReflectValue x ty of
        Inl e \<Rightarrow> Some (Err e, d, x)
      | Inr r \<Rightarrow> unmarshal n L False d r)"

definition UnmarshalForHTTP ::
  "nat \<Rightarrow> 's caddy \<Rightarrow> 's \<Rightarrow> val \<Rightarrow> gotype \<Rightarrow> (outcome \<times> 's \<times> val) option" where
  "UnmarshalForHTTP n L d x ty =
     (case newReflectValue x ty of
        Inl e \<Rightarrow> Some (Err e, d, x)
      | Inr r \<Rightarrow> unmarshal n L True d r)"

section \<open>A token cursor\<close>

text \<open>
  Modelled from the spec: the token cursor is the external \<^verbatim>\<open>caddyfile.Dispenser\<close>, whose
  code is not in this repository. To run the decoder on a directive, its methods are
  written out here as the Caddy library has them, over a list of tokens that carry their
  text and line. The claims that hold for every cursor are proved over the parameter
  \<open>'s caddy\<close>; this cursor is used to evaluate the decoder on concrete directives.
\<close>

datatype Token = Token (Text: string) (LineNo: nat)

record Dispenser =
  tokens :: "Token list"
  cursor :: int
  nesting :: int

definition NumLineBreaks :: "Token \<Rightarrow> nat" where
  "NumLineBreaks t = length (filter (\<lambda>c. c = CHR 0x0A) (Text t))"

definition isNextOnNewLine :: "Token \<Rightarrow> Token \<Rightarrow> bool" where
  "isNextOnNewLine t1 t2 = (LineNo t1 + NumLineBreaks t1 < LineNo t2)"

definition Dispenser_Val :: "Dispenser \<Rightarrow> string" where
  "Dispenser_Val d =
     (if cursor d < 0 \<or> cursor d \<ge> int (length (tokens d)) then []
      else Text (tokens d ! nat (cursor d)))"

definition Dispenser_Line :: "Dispenser \<Rightarrow> nat" where
  "Dispenser_Line d =
     (if cursor d < 0 \<or> cursor d \<ge> int (length (tokens d)) then 0
      else LineNo (tokens d ! nat (cursor d)))"

definition Dispenser_Next :: "Dispenser \<Rightarrow> bool \<times> Dispenser" where
  "Dispenser_Next d =
     (if cursor d < int (length (tokens d)) - 1 then (True, d\<lparr>cursor := cursor d + 1\<rparr>)
      else (False, d))"

definition Dispenser_Prev :: "Dispenser \<Rightarrow> bool \<times> Dispenser" where
  "Dispenser_Prev d =
     (if cursor d > - 1 then (cursor d - 1 > - 1, d\<lparr>cursor := cursor d - 1\<rparr>)
      else (False, d))"

definition nextOnSameLine :: "Dispenser \<Rightarrow> bool \<times> Dispenser" where
  "nextOnSameLine d =
     (if cursor d < 0 then (True, d\<lparr>cursor := cursor d + 1\<rparr>)
      else if cursor d \<ge> int (length (tokens d)) - 1 then (False, d)
      else if \<not> isNextOnNewLine (tokens d ! nat (cursor d)) (tokens d ! nat (cursor d + 1))
      then (True, d\<lparr>cursor := cursor d + 1\<rparr>)
      else (False, d))"

definition Dispenser_NextArg :: "Dispenser \<Rightarrow> bool \<times> Dispenser" where
  "Dispenser_NextArg d =
     (case nextOnSameLine d of
        (False, d1) \<Rightarrow> (False, d1)
      | (True, d1) \<Rightarrow>
          if Dispenser_Val d1 = ''{'' then (False, d1\<lparr>cursor := cursor d1 - 1\<rparr>)
          else (True, d1))"

definition openingBrace :: "Dispenser \<Rightarrow> Dispenser" where
  "openingBrace d =
     (if Dispenser_Val d = ''{'' then
        (case nextOnSameLine d of
           (False, d1) \<Rightarrow> d1\<lparr>nesting := nesting d1 + 1\<rparr>
         | (True, d1) \<Rightarrow> d1)
      else d)"

definition Dispenser_NextBlock :: "int \<Rightarrow> Dispenser \<Rightarrow> bool \<times> Dispenser" where
  "Dispenser_NextBlock initialNestingLevel d =
     (if nesting d > initialNestingLevel then
        (case Dispenser_Next d of
           (False, d1) \<Rightarrow> (False, d1)
         | (True, d1) \<Rightarrow>
             (let d2 =
                (if Dispenser_Val d1 = ''}'' then
                   (case nextOnSameLine d1 of
                      (False, d') \<Rightarrow> d'\<lparr>nesting := nesting d' - 1\<rparr>
                    | (True, d') \<Rightarrow> openingBrace d')
                 else openingBrace d1)
              in (nesting d2 > initialNestingLevel, d2)))
      else
        (case nextOnSameLine d of
           (False, d1) \<Rightarrow> (False, d1)
         | (True, d1) \<Rightarrow>
             if Dispenser_Val d1 \<noteq> ''{'' then (False, d1\<lparr>cursor := cursor d1 - 1\<rparr>)
             else
               (let d2 = snd (Dispenser_Next d1)
                in if Dispenser_Val d2 = ''}'' then (False, d2)
                   else (True, d2\<lparr>nesting := nesting d2 + 1\<rparr>))))"

definition remaining :: "Dispenser \<Rightarrow> nat" where
  "remaining d = nat (int (length (tokens d)) - cursor d)"

lemma nextOnSameLine_True:
  "nextOnSameLine d = (True, d') \<Longrightarrow>
     cursor d' = cursor d + 1 \<and> tokens d' = tokens d \<and> (cursor d' \<le> 0 \<or> cursor d' < int (length (tokens d)))"
  by (auto simp: nextOnSameLine_def split: if_splits)

lemma nextOnSameLine_False: "nextOnSameLine d = (False, d') \<Longrightarrow> d' = d"
  by (auto simp: nextOnSameLine_def split: if_splits)

lemma Next_True:
  "Dispenser_Next d = (True, d') \<Longrightarrow>
     cursor d' = cursor d + 1 \<and> tokens d' = tokens d \<and> cursor d' < int (length (tokens d))"
  by (auto simp: Dispenser_Next_def split: if_splits)

lemma NextArg_True:
  "Dispenser_NextArg d = (True, d') \<Longrightarrow>
     cursor d' = cursor d + 1 \<and> tokens d' = tokens d \<and> (cursor d' \<le> 0 \<or> cursor d' < int (length (tokens d)))"
  by (auto simp: Dispenser_NextArg_def split: prod.splits bool.splits if_splits dest: nextOnSameLine_True)

text \<open>\<^verbatim>\<open>for d.NextArg() { count++ }\<close>\<close>

function countArgs :: "Dispenser \<Rightarrow> nat \<times> Dispenser" where
  "countArgs d =
     (case Dispenser_NextArg d of
        (True, d1) \<Rightarrow> (case countArgs d1 of (c, d2) \<Rightarrow> (Suc c, d2))
      | (False, d1) \<Rightarrow> (0, d1))"
  by pat_completeness auto

termination
proof (relation "measure (\<lambda>d. nat (int (length (tokens d)) + 1 - cursor d))")
  show "wf (measure (\<lambda>d. nat (int (length (tokens d)) + 1 - cursor d)))" by simp
next
  fix d x1 d1
  assume "(x1, d1) = Dispenser_NextArg d" "x1 = True"
  then have "Dispenser_NextArg d = (True, d1)" by simp
  from NextArg_True[OF this]
  show "(d1, d) \<in> measure (\<lambda>d. nat (int (length (tokens d)) + 1 - cursor d))"
    by auto
qed


text \<open>\<^verbatim>\<open>CountRemainingArgs\<close> steps back once for every argument it counted.\<close>

definition Dispenser_CountRemainingArgs :: "Dispenser \<Rightarrow> nat \<times> Dispenser" where
  "Dispenser_CountRemainingArgs d =
     (case countArgs d of (count, d1) \<Rightarrow> (count, ((\<lambda>x. snd (Dispenser_Prev x)) ^^ count) d1))"

lemma NextBlock_True:
  "Dispenser_NextBlock lvl d = (True, d') \<Longrightarrow>
     cursor d < cursor d' \<and> tokens d' = tokens d \<and>
     (cursor d' < 0 \<or> cursor d' < int (length (tokens d)))"
  by (auto simp: Dispenser_NextBlock_def openingBrace_def Let_def Dispenser_Val_def
        Dispenser_Next_def nextOnSameLine_def
      split: prod.splits bool.splits if_splits)

text \<open>\<^verbatim>\<open>d.Prev(); ...; d.Next()\<close> in the block loop of \<^verbatim>\<open>NextSegment\<close>.\<close>

definition rewindOne :: "Dispenser \<Rightarrow> Dispenser" where
  "rewindOne d = snd (Dispenser_Next (snd (Dispenser_Prev d)))"

lemma rewindOne_cursor:
  "cursor d < 0 \<or> cursor d < int (length (tokens d)) \<Longrightarrow>
     tokens (rewindOne d) = tokens d \<and> cursor d \<le> cursor (rewindOne d) \<and>
     cursor (rewindOne d) \<le> int (length (tokens d))"
  by (auto simp: rewindOne_def Dispenser_Next_def Dispenser_Prev_def)

text \<open>\<^verbatim>\<open>for nesting := d.Nesting(); d.NextBlock(nesting); { ... }\<close> of
  \<^verbatim>\<open>NextSegment\<close>; the tokens it collects are not used by the decoder.\<close>

function skipBlock :: "int \<Rightarrow> bool \<Rightarrow> Dispenser \<Rightarrow> bool \<times> Dispenser" where
  "skipBlock lvl openedBlock d =
     (case Dispenser_NextBlock lvl d of
        (True, d1) \<Rightarrow> skipBlock lvl True (if \<not> openedBlock then rewindOne d1 else d1)
      | (False, d1) \<Rightarrow> (openedBlock, d1))"
  by pat_completeness auto

termination
proof (relation "measure (\<lambda>(lvl, opened, d). nat (int (length (tokens d)) + 1 - cursor d))")
  show "wf (measure (\<lambda>(lvl, opened, d). nat (int (length (tokens d)) + 1 - cursor d)))" by simp
next
  fix lvl :: int and openedBlock :: bool and d x1 d1
  assume "(x1, d1) = Dispenser_NextBlock lvl d" "x1 = True"
  then have "Dispenser_NextBlock lvl d = (True, d1)" by simp
  from NextBlock_True[OF this]
  have a: "cursor d < cursor d1" "tokens d1 = tokens d"
    "cursor d1 < 0 \<or> cursor d1 < int (length (tokens d1))" by auto
  from rewindOne_cursor[OF a(3)] a
  show "((lvl, True, if \<not> openedBlock then rewindOne d1 else d1), lvl, openedBlock, d)
        \<in> measure (\<lambda>(lvl, opened, d). nat (int (length (tokens d)) + 1 - cursor d))"
    by auto
qed

definition Dispenser_NextSegment :: "Dispenser \<Rightarrow> Dispenser" where
  "Dispenser_NextSegment d =
     (let d1 = snd (countArgs d) in
      case skipBlock (nesting d1) False d1 of
        (True, d2) \<Rightarrow> snd (Dispenser_Prev d2)
      | (False, d2) \<Rightarrow> d2)"


text \<open>The collaborators for the concrete directives: the cursor above; no type of the
  records decoded below has an \<^verbatim>\<open>UnmarshalCaddyfile\<close> method, none is a float or a domain
  type, and no matcher token is read (the decoder never gets that far, see
  \<open>unmarshal\<close>); \<^verbatim>\<open>append\<close> doubles the capacity, as the Go runtime does for small
  slices.\<close>

definition Caddy :: "Dispenser caddy" where
  "Caddy =
     \<lparr>NextArg = Dispenser_NextArg,
      NextBlock = Dispenser_NextBlock,
      Nesting = nesting,
      Val = Dispenser_Val,
      CountRemainingArgs = Dispenser_CountRemainingArgs,
      NextSegment = Dispenser_NextSegment,
      File = (\<lambda>d. ''Caddyfile''),
      Line = Dispenser_Line,
      MatcherToken = (\<lambda>d. (Inr (VMap None, False), d)),
      Unmarshaler = (\<lambda>ty. None),
      ParseFloat = (\<lambda>s bits. None),
      ParseAddress = (\<lambda>s. None),
      ParseNetworkAddress = (\<lambda>s. None),
      ParseCaddyDuration = (\<lambda>s. None),
      ParseDuration = (\<lambda>s. None),
      growslice = (\<lambda>c. 2 * c)\<rparr>"

text \<open>A directive as the tokens of its lines, the cursor on the directive name.\<close>

fun lineTokens :: "nat \<Rightarrow> string list list \<Rightarrow> Token list" where
  "lineTokens n [] = []"
| "lineTokens n (l # ls) = map (\<lambda>w. Token w n) l @ lineTokens (Suc n) ls"

definition directive :: "string list list \<Rightarrow> Dispenser" where
  "directive ls = \<lparr>tokens = lineTokens 1 ls, cursor = 0, nesting = 0\<rparr>"

section \<open>The records and directives evaluated below\<close>

text \<open>The records of \<^verbatim>\<open>caddyunmarshal_test.go\<close>.\<close>

definition thing1 :: gotype where
  "thing1 =
     TNamed ''thing1''
       (TStruct [StructField ''Arg1'' [] ''$1'' TString,
                 StructField ''Arg2'' [] ''$3,optional'' TString,
                 StructField ''Junk1'' [] ''{2}'' (TMap TString TString),
                 StructField ''Junk2'' [] ''{4},optional'' (TMap TString TString)])"

definition thing2 :: gotype where
  "thing2 =
     TNamed ''thing2''
       (TStruct [StructField ''Arg1'' [] ''$1'' TString,
                 StructField ''Arg2'' [] ''$2,optional'' TString,
                 StructField ''Param'' [] ''parameter'' TString,
                 StructField ''Number'' [] [] (TInt 64),
                 StructField ''Flag'' [] [] TBool])"

definition thing3 :: gotype where
  "thing3 =
     TNamed ''thing3''
       (TStruct [StructField ''Matcher'' [] ''$matcher'' TypeCaddyModuleMap,
                 StructField ''Arg1'' [] ''$1'' TString,
                 StructField ''Arg2'' [] ''$2,optional'' TString])"

text \<open>The directives of the test file, one list of tokens per line: \<^verbatim>\<open>thing1\<close> with
  two arguments and two blocks, \<^verbatim>\<open>thing2\<close> with two arguments and a block of three
  lines, \<^verbatim>\<open>thing3\<close> with a matcher token.\<close>

definition scenarioA :: Dispenser where
  "scenarioA =
     directive [[''thing1'', ''arg1'', ''{''], [''foo'', ''bar''], [''}'', ''arg2'', ''{''],
                [''baz'', ''qux''], [''}'']]"

definition scenarioB :: Dispenser where
  "scenarioB =
     directive [[''thing2'', ''a'', ''b'', ''{''], [''parameter'', ''value''],
                [''number'', ''100''], [''flag''], [''}'']]"

definition scenarioE :: Dispenser where
  "scenarioE = directive [[''thing3'', ''/*'', ''arg1'', ''arg2'', ''{'', ''}'']]"

text \<open>A positional field at index 1 followed by an indexed block group at index 1.\<close>

definition dupRecord :: gotype where
  "dupRecord =
     TStruct [StructField ''Arg'' [] ''$1'' TString,
              StructField ''Body'' [] ''{1}'' (TMap TString TString)]"

text \<open>Two positional fields declared against the order of their indices: both required;
  the second optional; the first optional.\<close>

definition swapRecord :: gotype where
  "swapRecord =
     TStruct [StructField ''Second'' [] ''$2'' TString,
              StructField ''First'' [] ''$1'' TString]"

definition requiredSecond :: gotype where
  "requiredSecond =
     TStruct [StructField ''A'' [] ''$2'' TString,
              StructField ''B'' [] ''$1,optional'' TString]"

definition optionalSecond :: gotype where
  "optionalSecond =
     TStruct [StructField ''A'' [] ''$2,optional'' TString,
              StructField ''B'' [] ''$1'' TString]"

text \<open>Two required positional fields in the order of their indices, and a directive with
  one argument.\<close>

definition pairRecord :: gotype where
  "pairRecord =
     TStruct [StructField ''Arg1'' [] ''$1'' TString,
              StructField ''Arg2'' [] ''$2'' TString]"

definition oneArgument :: Dispenser where
  "oneArgument = directive [[''thing'', ''x'']]"

text \<open>A record declares a matcher field when one of its exported fields carries the tag
  name \<^verbatim>\<open>$matcher\<close>; the scan of \<^verbatim>\<open>extractFields\<close> skips unexported fields before it
  reads their tags.\<close>

definition declaresMatcher :: "gotype \<Rightarrow> bool" where
  "declaresMatcher ty =
     list_ex (\<lambda>f. IsExported f \<and> fst (Split (Tag f)) = ''$matcher'') (Fields ty)"

text \<open>A record with a matcher field and a positional tag that is not a number.\<close>

definition malformedMatcher :: gotype where
  "malformedMatcher =
     TStruct [StructField ''Matcher'' [] ''$matcher'' TypeCaddyModuleMap,
              StructField ''Arg1'' [] ''$x'' TString]"

text \<open>A record whose field tagged \<^verbatim>\<open>$matcher\<close> is unexported (its package path is
  not empty), with a required positional field.\<close>

definition unexportedMatcher :: gotype where
  "unexportedMatcher =
     TStruct [StructField ''matcher'' ''main'' ''$matcher'' TypeCaddyModuleMap,
              StructField ''Arg1'' [] ''$1'' TString]"

text \<open>A record whose block group is a map with integer keys, and a directive whose block
  has a line that is not an integer.\<close>

definition mapRecord :: gotype where
  "mapRecord = TStruct [StructField ''Limits'' [] ''{1}'' (TMap (TInt 64) TString)]"

definition badKey :: Dispenser where
  "badKey = directive [[''thing'', ''{''], [''abc''], [''}'']]"

text \<open>A record whose block group is a record with a boolean entry, followed by an
  optional positional field; a directive whose block names the entry alone, and one where
  a token follows the name.\<close>

definition flagOptions :: gotype where
  "flagOptions = TStruct [StructField ''Flag'' [] [] TBool]"

definition flagRecord :: gotype where
  "flagRecord =
     TStruct [StructField ''Options'' [] ''{1}'' flagOptions,
              StructField ''Rest'' [] ''$2,optional'' TString]"

definition flagAlone :: Dispenser where
  "flagAlone = directive [[''thing'', ''{''], [''Flag''], [''}'']]"

definition flagWithArgument :: Dispenser where
  "flagWithArgument = directive [[''thing'', ''{''], [''Flag'', ''extra''], [''}'']]"

section \<open>Evaluating the decoder\<close>

text \<open>
  The equations of the loops of the cursor are not simplification rules; in this form they
  unfold one round at a time, once the cursor is known.
\<close>

lemma countArgs_if:
  "countArgs d =
     (if fst (Dispenser_NextArg d)
      then (case countArgs (snd (Dispenser_NextArg d)) of (c, d2) \<Rightarrow> (Suc c, d2))
      else (0, snd (Dispenser_NextArg d)))"
  by (subst countArgs.simps) (simp split: prod.splits bool.splits)

lemma skipBlock_if:
  "skipBlock lvl opened d =
     (if fst (Dispenser_NextBlock lvl d)
      then skipBlock lvl True
             (if \<not> opened then rewindOne (snd (Dispenser_NextBlock lvl d))
              else snd (Dispenser_NextBlock lvl d))
      else (opened, snd (Dispenser_NextBlock lvl d)))"
  by (subst skipBlock.simps) (simp split: prod.splits bool.splits)

lemmas extract_eval =
  extractFields_def IsExported_def blockIxRe_def Atoi_def ParseInt_def digitsValue_def
  isDigit_def HasPrefix_def TrimPrefix_def append_slice_def elems_def nilSlice_def
  emptyStore_def sort_Slice_def Let_def

lemmas cursor_eval =
  Dispenser_NextArg_def Dispenser_NextBlock_def nextOnSameLine_def Dispenser_Val_def
  Dispenser_Line_def Dispenser_Next_def Dispenser_Prev_def openingBrace_def
  isNextOnNewLine_def NumLineBreaks_def Dispenser_CountRemainingArgs_def
  Dispenser_NextSegment_def rewindOne_def directive_def Caddy_def WrapErr_def
  countArgs_if skipBlock_if

lemmas value_eval =
  unmarshalValue_def fieldValue_def written_def noInfo_def AssignableTo_def
  TypeCaddyModuleMap_def TypeCaddyAddress_def TypeCaddyNetworkAddress_def
  TypeCaddyDuration_def TypeDuration_def ParseBool_def ParseUint_def ParseInt_def
  digitsValue_def isDigit_def Let_def

text \<open>A bound \<open>k + n\<close> is at least \<open>k\<close>: the equations of the walk for such a
  bound.\<close>

lemma Suc_pred_numeral_add: "Suc (pred_numeral k + n) = numeral k + n"
  by (simp add: numeral_eq_Suc)

lemmas fuel_add =
  unmarshal.simps(2) [of "pred_numeral k + n", unfolded Suc_pred_numeral_add]
  walk.simps(2) [of "pred_numeral k + n", unfolded Suc_pred_numeral_add]
  unmarshalBlock.simps(2) [of "pred_numeral k + n", unfolded Suc_pred_numeral_add]
  blockLines.simps(2) [of "pred_numeral k + n", unfolded Suc_pred_numeral_add]
  parse.simps(2) [of "pred_numeral k + n", unfolded Suc_pred_numeral_add]
  parseValue.simps(2) [of "pred_numeral k + n", unfolded Suc_pred_numeral_add]
  for k n

section \<open>Duplicate indices\<close>

text \<open>
  C5. The claim: two fields with the same index make schema extraction fail with a
  duplicate-index error, whichever tag forms carry the duplicate. The code at
  \<open>dupRecord\<close>: the \<^verbatim>\<open>{N}\<close> case assigns \<^verbatim>\<open>append(info.blockFields, ...)\<close> to
  \<^verbatim>\<open>info.otherFields\<close>, so the positional field collected before it is dropped, the
  uniqueness check sees one field, and extraction succeeds, under every growth policy of
  \<^verbatim>\<open>append\<close>.
\<close>

theorem extractFields_accepts_duplicate_index:
  "extractFields grow (ReflectValue x dupRecord) =
     Some (Inr \<lparr>blockFields = [],
                otherFields =
                  [FieldInfo (StructField ''Body'' [] ''{1}'' (TMap TString TString)) 1
                     (blockKind 1 False)],
                matcher = None\<rparr>)"
  by (simp add: dupRecord_def extract_eval)

section \<open>The order of the walk\<close>

lemma extractFields_swapRecord:
  "extractFields grow (ReflectValue x swapRecord) =
     Some (Inr \<lparr>blockFields = [],
                otherFields =
                  [FieldInfo (StructField ''Second'' [] ''$2'' TString) 0 (argumentKind 2 False),
                   FieldInfo (StructField ''First'' [] ''$1'' TString) 1 (argumentKind 1 False)],
                matcher = None\<rparr>)"
  by (simp add: swapRecord_def extract_eval)

text \<open>
  C4. The claim: the argument at walk position \<open>i\<close> goes to the field with the
  \<open>i\<close>-th smallest declared index. The code on the directive \<^verbatim>\<open>thing x y\<close>:
  \<^verbatim>\<open>sort.Slice\<close> is applied to \<^verbatim>\<open>info.blockFields\<close>, \<^verbatim>\<open>info.otherFields\<close> stays in
  declaration order, and the first argument is stored in \<^verbatim>\<open>Second\<close> (index 2), the
  second in \<^verbatim>\<open>First\<close> (index 1).
\<close>

theorem walk_follows_declaration_order:
  "Unmarshal (4 + n) Caddy (directive [[''thing'', ''x'', ''y'']]) (zero swapRecord) swapRecord =
     Some (Ok,
           \<lparr>tokens = [Token ''thing'' 1, Token ''x'' 1, Token ''y'' 1], cursor = 2, nesting = 0\<rparr>,
           VStruct [VString ''x'', VString ''y''])"
  by (simp add: Unmarshal_def newReflectValue_def extractFields_swapRecord fuel_add
        cursor_eval value_eval)
     (simp add: swapRecord_def)

section \<open>The optional suffix\<close>

text \<open>
  C6. The claim: extraction fails when, in the order of the declared indices, a required
  field follows an optional one, and succeeds when the optional fields come last in that
  order. The code checks the fields in declaration order, because \<^verbatim>\<open>info.otherFields\<close>
  is never sorted. \<open>requiredSecond\<close> has the optional index 1 before the required index
  2 and is accepted; \<open>optionalSecond\<close> has the required index 1 before the optional index
  2 and is rejected, the error naming position 1.
\<close>

theorem suffix_check_in_declaration_order:
  "extractFields grow (ReflectValue x requiredSecond) =
     Some (Inr \<lparr>blockFields = [],
                otherFields =
                  [FieldInfo (StructField ''A'' [] ''$2'' TString) 0 (argumentKind 2 False),
                   FieldInfo (StructField ''B'' [] ''$1,optional'' TString) 1 (argumentKind 1 True)],
                matcher = None\<rparr>)
   \<and> extractFields grow (ReflectValue x optionalSecond) = Some (Inl (IllegalNonOptional 1))"
  by (simp add: requiredSecond_def optionalSecond_def extract_eval)

section \<open>The scenarios of the test file\<close>

lemma extractFields_thing1:
  "extractFields grow (ReflectValue x thing1) =
     Some (Inr \<lparr>blockFields = [],
                otherFields =
                  [FieldInfo (StructField ''Junk2'' [] ''{4},optional'' (TMap TString TString)) 3
                     (blockKind 4 True)],
                matcher = None\<rparr>)"
  by (simp add: thing1_def extract_eval)

lemma extractFields_thing2:
  "extractFields grow (ReflectValue x thing2) =
     Some (Inr \<lparr>blockFields =
                  [FieldInfo (StructField ''Param'' [] ''parameter'' TString) 2
                     (blockFieldKind ''parameter''),
                   FieldInfo (StructField ''Number'' [] [] (TInt 64)) 3 (blockFieldKind ''Number''),
                   FieldInfo (StructField ''Flag'' [] [] TBool) 4 (blockFieldKind ''Flag'')],
                otherFields =
                  [FieldInfo (StructField ''Arg1'' [] ''$1'' TString) 0 (argumentKind 1 False),
                   FieldInfo (StructField ''Arg2'' [] ''$2,optional'' TString) 1
                     (argumentKind 2 True)],
                matcher = None\<rparr>)"
  by (simp add: thing2_def extract_eval)

text \<open>
  C2. The claim: scenario A decodes with no error, \<^verbatim>\<open>Arg1 = "arg1"\<close>,
  \<^verbatim>\<open>Arg2 = "arg2"\<close> and both maps filled. The code: each \<^verbatim>\<open>{N}\<close> field replaces
  \<^verbatim>\<open>info.otherFields\<close> by \<^verbatim>\<open>append(info.blockFields, ...)\<close>, so the schema of
  \<^verbatim>\<open>thing1\<close> has the single walk field \<^verbatim>\<open>Junk2\<close> (\<open>extractFields_thing1\<close>); the first
  argument \<^verbatim>\<open>arg1\<close> is coerced into that map and the call returns the unsupported-type
  error at position 0, with nothing stored.
\<close>

theorem scenarioA_fails_at_first_argument:
  "Unmarshal (2 + n) Caddy scenarioA (zero thing1) thing1 =
     Some (Err (ErrorAt 0 (UnsupportedType (TMap TString TString))),
           scenarioA\<lparr>cursor := 1\<rparr>,
           zero thing1)"
  by (simp add: Unmarshal_def newReflectValue_def extractFields_thing1 fuel_add
        cursor_eval value_eval scenarioA_def)
     (simp add: thing1_def)

text \<open>
  C3. The claim: a block line is matched to a field by the tag literal, or by the field's
  name when it has no tag, so scenario B stores \<^verbatim>\<open>parameter = "value"\<close>,
  \<^verbatim>\<open>number = 100\<close>, \<^verbatim>\<open>flag = true\<close>. The code: \<^verbatim>\<open>blockFieldNamed\<close> compares the line's
  first token with \<^verbatim>\<open>field.field.Name\<close>, the Go name of the field (\<^verbatim>\<open>Param\<close>,
  \<^verbatim>\<open>Number\<close>, \<^verbatim>\<open>Flag\<close>), never with the entry name kept in \<^verbatim>\<open>blockFieldKind\<close>. The
  three lines name no field, each is skipped, and the call returns nil with the three
  fields at their zero values.
\<close>

theorem scenarioB_block_lines_skipped:
  "Unmarshal (9 + n) Caddy scenarioB (zero thing2) thing2 =
     Some (Ok,
           scenarioB\<lparr>cursor := 9\<rparr>,
           VStruct [VString ''a'', VString ''b'', VString [], VInt 0, VBool False])"
  by (simp add: Unmarshal_def newReflectValue_def extractFields_thing2 fuel_add
        cursor_eval value_eval scenarioB_def)
     (simp add: thing2_def)

section \<open>Missing required fields\<close>

lemma extractFields_pairRecord:
  "extractFields grow (ReflectValue x pairRecord) =
     Some (Inr \<lparr>blockFields = [],
                otherFields =
                  [FieldInfo (StructField ''Arg1'' [] ''$1'' TString) 0 (argumentKind 1 False),
                   FieldInfo (StructField ''Arg2'' [] ''$2'' TString) 1 (argumentKind 2 False)],
                matcher = None\<rparr>)"
  by (simp add: pairRecord_def extract_eval)

lemma oneArgument_decoded:
  "Unmarshal (3 + n) Caddy oneArgument (zero pairRecord) pairRecord =
     Some (Err (Positioned ''Caddyfile'' 1 (MissingRequiredField 1)),
           oneArgument\<lparr>cursor := 1\<rparr>,
           VStruct [VString ''x'', VString []])"
  by (simp add: Unmarshal_def newReflectValue_def extractFields_pairRecord fuel_add
        cursor_eval value_eval oneArgument_def)
     (simp add: pairRecord_def)

text \<open>
  C8, as stated: with required positional fields at the declared indices 1 and 2 and one
  argument token, the error reports index 2. On the directive \<^verbatim>\<open>thing x\<close> the decoder
  reports index 1.
\<close>

theorem missing_required_index_counterexample:
  "Unmarshal 3 Caddy oneArgument (zero pairRecord) pairRecord =
     Some (Err (Positioned ''Caddyfile'' 1 (MissingRequiredField 1)),
           oneArgument\<lparr>cursor := 1\<rparr>,
           VStruct [VString ''x'', VString []])"
  using oneArgument_decoded [of 0] by simp

text \<open>
  C8, amended: for the record with required positional fields at the declared indices 1
  and 2, over any cursor that yields one argument and then neither an argument nor a
  block, the call ends with the missing-required-field error, and the index it reports is
  1, the zero-based position of the field in the walk (\<^verbatim>\<open>i+j\<close>), not its declared index.
  The first field holds the argument; the second is untouched.
\<close>

theorem missing_required_reports_position:
  assumes "NextArg L d = (True, d1)"
    and "NextArg L d1 = (False, d2)"
    and "NextBlock L (Nesting L d1) d2 = (False, d3)"
    and "Unmarshaler L TString = None"
  shows "Unmarshal (3 + n) L d (VStruct [a, b]) pairRecord =
           Some (Err (WrapErr L d3 (MissingRequiredField 1)), d3, VStruct [VString (Val L d1), b])"
  using assms
  by (simp add: Unmarshal_def newReflectValue_def extractFields_pairRecord fuel_add value_eval)
     (simp add: pairRecord_def)

theorem missing_required_reports_position_witness:
  "Unmarshal 3 Caddy (directive [[''thing'', ''new'']]) (VStruct [VString ''old1'', VString ''old2''])
       pairRecord =
     Some (Err (Positioned ''Caddyfile'' 1 (MissingRequiredField 1)),
           (directive [[''thing'', ''new'']])\<lparr>cursor := 1\<rparr>,
           VStruct [VString ''new'', VString ''old2''])"
  using missing_required_reports_position
    [where L = Caddy and d = "directive [[''thing'', ''new'']]"
       and ?d1.0 = "(directive [[''thing'', ''new'']])\<lparr>cursor := 1\<rparr>"
       and ?d2.0 = "(directive [[''thing'', ''new'']])\<lparr>cursor := 1\<rparr>"
       and ?d3.0 = "(directive [[''thing'', ''new'']])\<lparr>cursor := 1\<rparr>"
       and n = 0 and a = "VString ''old1''" and b = "VString ''old2''"]
  by (simp add: cursor_eval)

section \<open>The matcher field\<close>

lemma Fields_Kind: "Fields ty \<noteq> [] \<Longrightarrow> Kind ty = KStruct"
  by (induction ty rule: Fields.induct) simp_all

lemma Kind_underlying: "Kind (underlying ty) = Kind ty"
  by (induction ty rule: underlying.induct) simp_all

lemma struct_not_ModuleMap: "Kind ty = KStruct \<Longrightarrow> \<not> AssignableTo ty TypeCaddyModuleMap"
proof
  assume k: "Kind ty = KStruct" and a: "AssignableTo ty TypeCaddyModuleMap"
  from a have "ty = TypeCaddyModuleMap \<or> underlying ty = underlying TypeCaddyModuleMap"
    by (auto simp: AssignableTo_def)
  then have "Kind (underlying ty) = KMap"
    by (auto simp: TypeCaddyModuleMap_def)
  with k show False by (simp add: Kind_underlying)
qed

lemma scanFields_keeps_matcher:
  "sMatcher info \<noteq> None \<Longrightarrow> scanFields grow fs i h info = Inr (h', info')
     \<Longrightarrow> sMatcher info' \<noteq> None"
proof (induction fs arbitrary: i h info)
  case Nil
  then show ?case by simp
next
  case (Cons f fs)
  from Cons.prems show ?case
    by (auto simp: Let_def split: if_splits prod.splits option.splits
          dest!: Cons.IH [rotated])
qed

lemma scanFields_finds_matcher:
  "list_ex (\<lambda>f. IsExported f \<and> fst (Split (Tag f)) = ''$matcher'') fs
     \<Longrightarrow> scanFields grow fs i h info = Inr (h', info') \<Longrightarrow> sMatcher info' \<noteq> None"
proof (induction fs arbitrary: i h info)
  case Nil
  then show ?case by simp
next
  case (Cons f fs)
  show ?case
  proof (cases "IsExported f \<and> fst (Split (Tag f)) = ''$matcher''")
    case True
    then have "Tag f \<noteq> []" by auto
    with True Cons.prems(2)
    have "scanFields grow fs (Suc i) h
            (Scan (sBlockFields info) (sOtherFields info) (Some (FieldInfo f i matcherKind)))
          = Inr (h', info')"
      by (auto split: prod.splits)
    then show ?thesis
      by (rule scanFields_keeps_matcher [rotated]) simp
  next
    case False
    with Cons.prems(1) have ex: "list_ex (\<lambda>f. IsExported f \<and> fst (Split (Tag f)) = ''$matcher'') fs"
      by auto
    from Cons.prems(2) show ?thesis
      by (auto simp: Let_def split: if_splits prod.splits option.splits
            dest!: Cons.IH [OF ex])
  qed
qed

lemma extractFields_matcher:
  assumes "declaresMatcher (rt r)" and "extractFields grow r = Some (Inr info)"
  shows "matcher info \<noteq> None"
proof -
  from assms(2) obtain h s where
    sc: "scanFields grow (Fields (rt r)) 0 emptyStore (Scan nilSlice nilSlice None) = Inr (h, s)"
    and m: "matcher info = sMatcher s"
    by (auto simp: extractFields_def Let_def split: if_splits sum.splits option.splits prod.splits)
  from assms(1) have "list_ex (\<lambda>f. IsExported f \<and> fst (Split (Tag f)) = ''$matcher'') (Fields (rt r))"
    by (simp add: declaresMatcher_def)
  from scanFields_finds_matcher [OF this sc] m show ?thesis by simp
qed

lemma declaresMatcher_struct: "declaresMatcher ty \<Longrightarrow> Kind ty = KStruct"
  by (rule Fields_Kind) (auto simp: declaresMatcher_def)

lemma extractFields_unexportedMatcher:
  "extractFields grow (ReflectValue x unexportedMatcher) =
     Some (Inr \<lparr>blockFields = [],
                otherFields =
                  [FieldInfo (StructField ''Arg1'' [] ''$1'' TString) 1 (argumentKind 1 False)],
                matcher = None\<rparr>)"
  by (simp add: unexportedMatcher_def extract_eval)

lemma unexportedMatcher_decoded:
  "Unmarshal (3 + n) Caddy oneArgument (zero unexportedMatcher) unexportedMatcher =
     Some (Ok, oneArgument\<lparr>cursor := 1\<rparr>, VStruct [VMap None, VString ''x''])"
  by (simp add: Unmarshal_def newReflectValue_def extractFields_unexportedMatcher fuel_add
        cursor_eval value_eval oneArgument_def)
     (simp add: unexportedMatcher_def TypeCaddyModuleMap_def)

text \<open>
  C9, as stated: every record type that declares a matcher field makes \<^verbatim>\<open>Unmarshal\<close>
  fail before a token is consumed or a field written. \<open>unexportedMatcher\<close> has a field
  tagged \<^verbatim>\<open>$matcher\<close>, but the field is unexported: the scan of \<^verbatim>\<open>extractFields\<close>
  skips it before it reads the tag (\<^verbatim>\<open>if !f.IsExported() { continue }\<close>), the schema has
  no matcher, and on the directive \<^verbatim>\<open>thing x\<close> the call returns nil, the argument
  consumed and stored in \<^verbatim>\<open>Arg1\<close>.
\<close>

theorem unexported_matcher_counterexample:
  "list_ex (\<lambda>f. fst (Split (Tag f)) = ''$matcher'') (Fields unexportedMatcher)
   \<and> Unmarshal 3 Caddy oneArgument (zero unexportedMatcher) unexportedMatcher =
       Some (Ok, oneArgument\<lparr>cursor := 1\<rparr>, VStruct [VMap None, VString ''x''])"
  using unexportedMatcher_decoded [of 0] by (simp add: unexportedMatcher_def)

text \<open>
  C9, amended: for every record type that declares an exported matcher field,
  \<^verbatim>\<open>Unmarshal\<close> (the entry point without matcher support, \<^verbatim>\<open>d.http == nil\<close>) returns an
  error as soon as it is given any bound at all: the matcher error, or the error of schema
  extraction when the schema is itself invalid. In both cases the cursor and the record
  are as they were: no token was consumed and no field was written. This holds for every
  cursor.
\<close>

theorem matcher_without_http_fails_at_once:
  assumes "declaresMatcher ty"
  shows "Unmarshal (Suc n) L d x ty = Some (Err MatcherWithoutHTTP, d, x)
         \<or> (\<exists>e. Unmarshal (Suc n) L d x ty = Some (Err (CannotExtractFields e), d, x))"
proof -
  from assms have k: "Kind ty = KStruct" by (rule declaresMatcher_struct)
  show ?thesis
  proof (cases "extractFields (growslice L) (ReflectValue x ty)")
    case None
    with k show ?thesis by (simp add: extractFields_def)
  next
    case (Some res)
    show ?thesis
    proof (cases res)
      case (Inl e)
      with Some k show ?thesis by (simp add: Unmarshal_def newReflectValue_def)
    next
      case (Inr info)
      with Some assms have "matcher info \<noteq> None"
        using extractFields_matcher [where r = "ReflectValue x ty" and grow = "growslice L"
                                       and info = info]
        by simp
      with Some Inr k show ?thesis by (simp add: Unmarshal_def newReflectValue_def)
    qed
  qed
qed

theorem matcher_without_http_fails_at_once_witness:
  "Unmarshal (Suc 0) Caddy scenarioE (zero thing3) thing3 =
     Some (Err MatcherWithoutHTTP, scenarioE, zero thing3)
   \<or> (\<exists>e. Unmarshal (Suc 0) Caddy scenarioE (zero thing3) thing3 =
             Some (Err (CannotExtractFields e), scenarioE, zero thing3))"
  by (rule matcher_without_http_fails_at_once)
     (simp add: declaresMatcher_def thing3_def IsExported_def)

text \<open>
  C10, as stated: every record type with a \<^verbatim>\<open>$matcher\<close> field makes the decoding with
  matcher support fail with the expected-ModuleMap error. \<open>malformedMatcher\<close> declares a
  matcher field, and the call returns the error of schema extraction instead, which
  \<^verbatim>\<open>unmarshal\<close> checks first.
\<close>

theorem expected_ModuleMap_counterexample:
  "declaresMatcher malformedMatcher
   \<and> UnmarshalForHTTP (Suc 0) Caddy scenarioE (zero malformedMatcher) malformedMatcher =
       Some (Err (CannotExtractFields (InvalidArgumentIndex ''$x'')), scenarioE,
             zero malformedMatcher)"
  by (simp add: declaresMatcher_def UnmarshalForHTTP_def newReflectValue_def malformedMatcher_def
        extract_eval Caddy_def)

text \<open>
  C10, amended: for every record type that declares a matcher field and whose schema
  extraction succeeds, \<^verbatim>\<open>UnmarshalForHTTP\<close> returns the expected-ModuleMap error whatever
  the matcher support would answer: the assignability test is made on the type of the
  whole record, which is a struct and never a \<^verbatim>\<open>caddy.ModuleMap\<close>.
  \<^verbatim>\<open>MatcherToken\<close> is never called, the cursor is where it was, and the record, its matcher
  field included, is unchanged. This holds for every cursor and every bound but 0.
\<close>

theorem matcher_with_http_fails_on_record_type:
  assumes "declaresMatcher ty"
    and "extractFields (growslice L) (ReflectValue x ty) = Some (Inr info)"
  shows "UnmarshalForHTTP (Suc n) L d x ty = Some (Err ExpectedModuleMap, d, x)"
proof -
  from assms(1) have k: "Kind ty = KStruct" by (rule declaresMatcher_struct)
  then have na: "\<not> AssignableTo ty TypeCaddyModuleMap" by (rule struct_not_ModuleMap)
  from assms have "matcher info \<noteq> None"
    using extractFields_matcher [where r = "ReflectValue x ty" and grow = "growslice L"
                                   and info = info]
    by simp
  with assms(2) k na show ?thesis
    by (simp add: UnmarshalForHTTP_def newReflectValue_def)
qed

theorem matcher_with_http_fails_on_record_type_witness:
  "UnmarshalForHTTP (Suc 0) Caddy scenarioE (zero thing3) thing3 =
     Some (Err ExpectedModuleMap, scenarioE, zero thing3)"
  by (rule matcher_with_http_fails_on_record_type
        [where info = "\<lparr>blockFields = [],
           otherFields =
             [FieldInfo (StructField ''Arg1'' [] ''$1'' TString) 1 (argumentKind 1 False),
              FieldInfo (StructField ''Arg2'' [] ''$2,optional'' TString) 2 (argumentKind 2 True)],
           matcher = Some (FieldInfo (StructField ''Matcher'' [] ''$matcher'' TypeCaddyModuleMap) 0
                             matcherKind)\<rparr>"])
     (simp_all add: declaresMatcher_def thing3_def extract_eval Caddy_def)

section \<open>Errors inside a block body\<close>

text \<open>The loop of \<^verbatim>\<open>unmarshalBlock\<close> returns nil when \<^verbatim>\<open>parse\<close> returns an error
  (\<^verbatim>\<open>if err := parse(); err != nil { return nil }\<close>): it never returns an error itself,
  for any cursor and any target.\<close>

lemma blockLines_never_fails:
  "blockLines n L http lvl isMap info d r \<noteq> Some (Err e, d', x)"
proof (induction n arbitrary: d r)
  case 0
  then show ?case by simp
next
  case (Suc n)
  show ?case
    using Suc.IH
    by (simp split: option.splits prod.splits outcome.splits bool.splits)
qed

lemma extractFields_mapRecord:
  "extractFields grow (ReflectValue x mapRecord) =
     Some (Inr \<lparr>blockFields = [],
                otherFields =
                  [FieldInfo (StructField ''Limits'' [] ''{1}'' (TMap (TInt 64) TString)) 0
                     (blockKind 1 False)],
                matcher = None\<rparr>)"
  by (simp add: mapRecord_def extract_eval)

text \<open>
  C1. The claim: the first error raised while a line of a block body is decoded makes the
  whole call return that error. The code on \<open>badKey\<close>: the line \<^verbatim>\<open>abc\<close> of the block is a
  key of a \<^verbatim>\<open>map[int]string\<close>; its coercion fails (\<^verbatim>\<open>cannot parse int\<close>), \<^verbatim>\<open>parse\<close>
  returns the error, \<^verbatim>\<open>unmarshalBlock\<close> returns nil in its place, and the call returns
  nil, the cursor left inside the block and the map untouched.
\<close>

theorem block_error_discarded:
  "Unmarshal (5 + n) Caddy badKey (zero mapRecord) mapRecord =
     Some (Ok, badKey\<lparr>cursor := 2, nesting := 1\<rparr>, VStruct [VMap None])"
  by (simp add: Unmarshal_def newReflectValue_def extractFields_mapRecord fuel_add
        cursor_eval value_eval badKey_def)
     (simp add: mapRecord_def)

lemma extractFields_flagRecord:
  "extractFields grow (ReflectValue x flagRecord) =
     Some (Inr \<lparr>blockFields = [],
                otherFields =
                  [FieldInfo (StructField ''Options'' [] ''{1}'' flagOptions) 0 (blockKind 1 False),
                   FieldInfo (StructField ''Rest'' [] ''$2,optional'' TString) 1
                     (argumentKind 2 True)],
                matcher = None\<rparr>)"
  by (simp add: flagRecord_def extract_eval)

lemma extractFields_flagOptions:
  "extractFields grow (ReflectValue x flagOptions) =
     Some (Inr \<lparr>blockFields =
                  [FieldInfo (StructField ''Flag'' [] [] TBool) 0 (blockFieldKind ''Flag'')],
                otherFields = [],
                matcher = None\<rparr>)"
  by (simp add: flagOptions_def extract_eval)

text \<open>
  C7. The claim: a line that is the name of a boolean entry sets it to true and the call
  succeeds; the name followed by a token makes the call fail with the
  unexpected-argument error. The code: on \<open>flagAlone\<close> the entry is set and the call
  returns nil, as claimed. On \<open>flagWithArgument\<close> \<^verbatim>\<open>parse\<close> returns the error,
  \<^verbatim>\<open>unmarshalBlock\<close> returns nil in its place, the walk of the enclosing record goes on
  from the middle of the line and stores the token \<^verbatim>\<open>extra\<close> in the next positional
  field: the call returns nil, the entry still false.
\<close>

theorem boolean_entry_lines:
  "Unmarshal (6 + n) Caddy flagAlone (zero flagRecord) flagRecord =
     Some (Ok, flagAlone\<lparr>cursor := 3\<rparr>, VStruct [VStruct [VBool True], VString []])
   \<and> Unmarshal (6 + n) Caddy flagWithArgument (zero flagRecord) flagRecord =
       Some (Ok, flagWithArgument\<lparr>cursor := 3, nesting := 1\<rparr>,
             VStruct [VStruct [VBool False], VString ''extra''])"
  by (simp add: Unmarshal_def newReflectValue_def flagRecord_def flagOptions_def
        extractFields_flagRecord [unfolded flagRecord_def flagOptions_def]
        extractFields_flagOptions [unfolded flagOptions_def]
        fuel_add cursor_eval value_eval flagAlone_def flagWithArgument_def)

end
